theory Spec2Isabelle
  imports Complex_Main "HOL-Library.Multiset" "HOL-Library.Log_Nat"
begin

section \<open>Data model of the shop\<close>

text \<open>
  The business logic lives in \<^verbatim>\<open>src/shop/api.py\<close>. It works on Django model tables;
  each table is a list of rows (in storage order), each row a record. Every exception the
  functions can raise is a constructor of \<open>error\<close>, and a function that can raise returns
  \<open>error + result\<close>. A function decorated with \<^verbatim>\<open>transaction.atomic\<close> that raises
  leaves the database as it was, so a failing call returns no new database.
\<close>

datatype error =
    DoesNotExist
  | MultipleObjectsReturned
  | APIException string
  | ValueError
  | ZeroDivisionError
  | UnboundLocalError
  | OverflowError

datatype trx_type = INVENTORY | CORRECTION | OTHER_TRX_TYPE

datatype trx_status = PENDING | FINALIZED | CANCELED

datatype content_type = CT_DeliveryItem | CT_StocktakeItem

type_synonym reference = "content_type \<times> nat"

record product =
  product_id :: nat
  product_code :: string
  product_name :: string
  product_category :: nat

record product_transaction =
  trx_id :: nat
  trx_product :: nat
  trx_type_of :: trx_type
  trx_qty :: int
  date_created :: int
  trx_states :: "(trx_status \<times> reference option) list"

record stocktake =
  stocktake_id :: nat
  stocktake_locked :: bool

record stocktake_chunk =
  chunk_id :: nat
  chunk_stocktake :: nat
  chunk_locked :: bool
  chunk_owner :: "nat option"

record stocktake_item =
  item_id :: nat
  item_chunk :: nat
  item_product :: nat
  item_qty :: int

record supplier =
  supplier_id :: nat
  internal_name :: string

record supplier_product =
  sp_id :: nat
  sp_supplier :: nat
  sp_product :: "nat option"
  sp_sku :: string
  sp_price :: rat
  sp_name :: string
  sp_units :: int
  sp_qty_multiplier :: int
  sp_qty :: int
  sp_unit_price :: rat

record delivery =
  delivery_id :: nat
  delivery_supplier :: nat
  delivery_report :: string
  delivery_locked :: bool

record delivery_item =
  di_id :: nat
  di_delivery :: nat
  di_supplier_product :: nat
  di_qty :: int
  di_price :: rat

record db =
  products :: "product list"
  transactions :: "product_transaction list"
  stocktakes :: "stocktake list"
  chunks :: "stocktake_chunk list"
  stocktake_items :: "stocktake_item list"
  suppliers :: "supplier list"
  supplier_products :: "supplier_product list"
  deliveries :: "delivery list"
  delivery_items :: "delivery_item list"

definition empty_db :: db where
  "empty_db = \<lparr>products = [], transactions = [], stocktakes = [], chunks = [],
     stocktake_items = [], suppliers = [], supplier_products = [], deliveries = [],
     delivery_items = []\<rparr>"

subsection \<open>Query helpers\<close>

text \<open>
  \<^verbatim>\<open>Model.objects.get(...)\<close>: the only matching row, \<^verbatim>\<open>DoesNotExist\<close> when no row
  matches and \<^verbatim>\<open>MultipleObjectsReturned\<close> when several do.
\<close>

fun qs_get :: "'a list \<Rightarrow> error + 'a" where
  "qs_get [] = Inl DoesNotExist"
| "qs_get [x] = Inr x"
| "qs_get (x # y # zs) = Inl MultipleObjectsReturned"

text \<open>
  \<^verbatim>\<open>queryset.first()\<close> on a queryset without an ordering: Django orders it by primary
  key and returns the first row, or None when there is none.
\<close>

definition qs_first :: "('a \<Rightarrow> nat) \<Rightarrow> 'a list \<Rightarrow> 'a option" where
  "qs_first pk xs = (case sort_key pk xs of [] \<Rightarrow> None | x # _ \<Rightarrow> Some x)"

text \<open>The primary key of a new row: one more than every key of the table.\<close>

definition fresh_id :: "nat list \<Rightarrow> nat" where
  "fresh_id ids = Suc (fold max ids 0)"

subsection \<open>Products and the transaction ledger\<close>

definition create_product :: "string \<Rightarrow> string \<Rightarrow> nat \<Rightarrow> db \<Rightarrow> product \<times> db" where
  "create_product code name' dflt_category s =
     (let product_obj = \<lparr>product_id = fresh_id (map product_id (products s)),
                          product_code = code, product_name = name',
                          product_category = dflt_category\<rparr>
      in (product_obj, s\<lparr>products := products s @ [product_obj]\<rparr>))"

text \<open>
  Modelled from the spec: the current status of a transaction. The model classes
  (\<^verbatim>\<open>models.py\<close>) are not among the sources; the ledger keeps one state row per status
  change and the status of a transaction is that of its latest state row (PENDING when
  it has none yet).
\<close>

definition trx_status_of :: "product_transaction \<Rightarrow> trx_status" where
  "trx_status_of t = (case trx_states t of [] \<Rightarrow> PENDING | _ # _ \<Rightarrow> fst (last (trx_states t)))"

text \<open>
  Modelled from the spec: \<^verbatim>\<open>ProductTransaction.objects.finalized()\<close> and
  \<^verbatim>\<open>.restocks()\<close>, two queryset filters of \<^verbatim>\<open>models.py\<close>: the transactions whose
  status is FINALIZED, and those of type INVENTORY.
\<close>

definition finalized :: "product_transaction list \<Rightarrow> product_transaction list" where
  "finalized ts = filter (\<lambda>t. trx_status_of t = FINALIZED) ts"

definition restocks :: "product_transaction list \<Rightarrow> product_transaction list" where
  "restocks ts = filter (\<lambda>t. trx_type_of t = INVENTORY) ts"

text \<open>
  Modelled from the spec: \<^verbatim>\<open>Product.qty\<close>, declared in \<^verbatim>\<open>models.py\<close>: the current
  quantity of a product is the sum of the quantities of its finalized transactions.
\<close>

definition product_qty :: "db \<Rightarrow> nat \<Rightarrow> int" where
  "product_qty s pid =
     sum_list (map trx_qty (filter (\<lambda>t. trx_product t = pid) (finalized (transactions s))))"

text \<open>
  \<^verbatim>\<open>create_product_transaction(product_id, trx_type, qty, reference)\<close>. The creation
  time \<open>now\<close> is the clock's value, an input of the model. The new transaction gets one
  state row, with status PENDING and the reference.
\<close>

definition create_product_transaction ::
  "int \<Rightarrow> nat \<Rightarrow> trx_type \<Rightarrow> int \<Rightarrow> reference option \<Rightarrow> db \<Rightarrow> error + (product_transaction \<times> db)" where
  "create_product_transaction now pid ty qty ref s =
     (case qs_get (filter (\<lambda>p. product_id p = pid) (products s)) of
        Inl e \<Rightarrow> Inl e
      | Inr product_obj \<Rightarrow>
          (let trx_obj = \<lparr>trx_id = fresh_id (map trx_id (transactions s)),
                           trx_product = product_id product_obj, trx_type_of = ty,
                           trx_qty = qty, date_created = now,
                           trx_states = [(PENDING, ref)]\<rparr>
           in Inr (trx_obj, s\<lparr>transactions := transactions s @ [trx_obj]\<rparr>)))"

section \<open>Stocktake coordinator\<close>

subsection \<open>initiate\_stocktaking\<close>

text \<open>
  \<^verbatim>\<open>range(0, n, step)\<close> for \<open>n = len(product_objs)\<close>: the loop counter starts
  at 0 and grows by \<open>step\<close> while it is below \<open>n\<close>. Python raises ValueError for a
  zero step, and the range is empty for a negative one.
\<close>

function range_from :: "nat \<Rightarrow> nat \<Rightarrow> nat \<Rightarrow> nat list" where
  "range_from i n step = (if 0 < step \<and> i < n then i # range_from (i + step) n step else [])"
  by pat_completeness auto
termination
  by (relation "measure (\<lambda>(i, n, step). n - i)") auto

declare range_from.simps [simp del]

definition py_range :: "nat \<Rightarrow> int \<Rightarrow> error + nat list" where
  "py_range n step =
     (if step = 0 then Inl ValueError
      else if step < 0 then Inr []
      else Inr (range_from 0 n (nat step)))"

text \<open>
  Modelled from the spec: the field defaults of Stocktake and StocktakeChunk, declared in
  \<^verbatim>\<open>models.py\<close>: \<^verbatim>\<open>create()\<close> without arguments gives an open (unlocked) stocktake
  and an open chunk without owner. The default count of a new item is the parameter
  \<open>dflt_qty\<close>.
\<close>

definition create_stocktake :: "db \<Rightarrow> stocktake \<times> db" where
  "create_stocktake s =
     (let stocktake_obj = \<lparr>stocktake_id = fresh_id (map stocktake_id (stocktakes s)),
                            stocktake_locked = False\<rparr>
      in (stocktake_obj, s\<lparr>stocktakes := stocktakes s @ [stocktake_obj]\<rparr>))"

definition create_chunk :: "nat \<Rightarrow> db \<Rightarrow> stocktake_chunk \<times> db" where
  "create_chunk sid s =
     (let chunk_obj = \<lparr>chunk_id = fresh_id (map chunk_id (chunks s)), chunk_stocktake = sid,
                        chunk_locked = False, chunk_owner = None\<rparr>
      in (chunk_obj, s\<lparr>chunks := chunks s @ [chunk_obj]\<rparr>))"

definition create_item :: "int \<Rightarrow> nat \<Rightarrow> product \<Rightarrow> db \<Rightarrow> db" where
  "create_item dflt_qty cid p s =
     s\<lparr>stocktake_items := stocktake_items s @
        [\<lparr>item_id = fresh_id (map item_id (stocktake_items s)), item_chunk = cid,
          item_product = product_id p, item_qty = dflt_qty\<rparr>]\<rparr>"

text \<open>The inner loop \<^verbatim>\<open>for p in chunk_products\<close>.\<close>

fun create_items :: "int \<Rightarrow> nat \<Rightarrow> product list \<Rightarrow> db \<Rightarrow> db" where
  "create_items dflt_qty cid [] s = s"
| "create_items dflt_qty cid (p # ps) s = create_items dflt_qty cid ps (create_item dflt_qty cid p s)"

text \<open>
  The outer loop \<^verbatim>\<open>for i in range(0, len(product_objs), chunk_size)\<close>; the slice
  \<^verbatim>\<open>product_objs[i:i + chunk_size]\<close> is \<open>take chunk_size (drop i product_objs)\<close>.
\<close>

fun create_chunks :: "int \<Rightarrow> nat \<Rightarrow> nat \<Rightarrow> product list \<Rightarrow> nat list \<Rightarrow> db \<Rightarrow> db" where
  "create_chunks dflt_qty sid chunk_size product_objs [] s = s"
| "create_chunks dflt_qty sid chunk_size product_objs (i # is) s =
     (let (chunk_obj, s1) = create_chunk sid s;
          chunk_products = take chunk_size (drop i product_objs);
          s2 = create_items dflt_qty (chunk_id chunk_obj) chunk_products s1
      in create_chunks dflt_qty sid chunk_size product_objs is s2)"

text \<open>
  \<^verbatim>\<open>order_by('category')\<close> is a stable sort of the product table by category: products
  of one category keep their storage order.
\<close>

definition initiate_stocktaking :: "int \<Rightarrow> int \<Rightarrow> db \<Rightarrow> error + (stocktake \<times> db)" where
  "initiate_stocktaking dflt_qty chunk_size s =
     (if \<not> (length (filter (\<lambda>st. stocktake_locked st = False) (stocktakes s)) = 0)
      then Inl (APIException ''Stock-taking already in progress.'')
      else
        (let (stocktake_obj, s1) = create_stocktake s;
             product_objs = sort_key product_category (products s1)
         in case py_range (length product_objs) chunk_size of
              Inl e \<Rightarrow> Inl e
            | Inr is \<Rightarrow> Inr (stocktake_obj,
                create_chunks dflt_qty (stocktake_id stocktake_obj) (nat chunk_size) product_objs is s1)))"

subsection \<open>finalize\_stocktaking\<close>

text \<open>\<^verbatim>\<open>obj.save()\<close> on a row that exists: every field of the row with that primary key is overwritten.\<close>

definition save_stocktake :: "stocktake \<Rightarrow> db \<Rightarrow> db" where
  "save_stocktake st s =
     s\<lparr>stocktakes := map (\<lambda>r. if stocktake_id r = stocktake_id st then st else r) (stocktakes s)\<rparr>"

definition save_chunk :: "stocktake_chunk \<Rightarrow> db \<Rightarrow> db" where
  "save_chunk c s =
     s\<lparr>chunks := map (\<lambda>r. if chunk_id r = chunk_id c then c else r) (chunks s)\<rparr>"

text \<open>\<^verbatim>\<open>stocktake_obj.chunks.all()\<close> and \<^verbatim>\<open>chunk_obj.items.all()\<close>, the reverse relations.\<close>

definition chunks_all :: "db \<Rightarrow> stocktake \<Rightarrow> stocktake_chunk list" where
  "chunks_all s st = filter (\<lambda>c. chunk_stocktake c = stocktake_id st) (chunks s)"

definition items_all :: "db \<Rightarrow> stocktake_chunk \<Rightarrow> stocktake_item list" where
  "items_all s c = filter (\<lambda>i. item_chunk i = chunk_id c) (stocktake_items s)"

text \<open>
  The inner loop \<^verbatim>\<open>for item_obj in chunk_obj.items.all()\<close>: one CORRECTION transaction
  per item, with \<^verbatim>\<open>qty = item_obj.qty - product_obj.qty\<close> and the item as reference.
\<close>

fun correct_items :: "int \<Rightarrow> stocktake_item list \<Rightarrow> db \<Rightarrow> error + db" where
  "correct_items now [] s = Inr s"
| "correct_items now (item_obj # rest) s =
     (case create_product_transaction now (item_product item_obj) CORRECTION
             (item_qty item_obj - product_qty s (item_product item_obj))
             (Some (CT_StocktakeItem, item_id item_obj)) s of
        Inl e \<Rightarrow> Inl e
      | Inr (trx_obj, s1) \<Rightarrow> correct_items now rest s1)"

text \<open>The outer loop \<^verbatim>\<open>for chunk_obj in chunk_objs\<close>.\<close>

fun correct_chunks :: "int \<Rightarrow> stocktake_chunk list \<Rightarrow> db \<Rightarrow> error + db" where
  "correct_chunks now [] s = Inr s"
| "correct_chunks now (chunk_obj # rest) s =
     (case correct_items now (items_all s chunk_obj) s of
        Inl e \<Rightarrow> Inl e
      | Inr s1 \<Rightarrow> correct_chunks now rest s1)"

definition finalize_stocktaking :: "int \<Rightarrow> nat \<Rightarrow> db \<Rightarrow> error + (stocktake \<times> db)" where
  "finalize_stocktaking now sid s =
     (case qs_get (filter (\<lambda>st. stocktake_id st = sid) (stocktakes s)) of
        Inl e \<Rightarrow> Inl e
      | Inr stocktake_obj \<Rightarrow>
          if stocktake_locked stocktake_obj
          then Inl (APIException ''Stock-taking already finished.'')
          else
            (let chunk_objs = chunks_all s stocktake_obj
             in if \<not> list_all chunk_locked chunk_objs
                then Inl (APIException ''Found unfinished chunks.'')
                else
                  (case correct_chunks now chunk_objs s of
                     Inl e \<Rightarrow> Inl e
                   | Inr s1 \<Rightarrow>
                       (let stocktake_obj' = stocktake_obj\<lparr>stocktake_locked := True\<rparr>
                        in Inr (stocktake_obj', save_stocktake stocktake_obj' s1)))))"



definition has_product :: "db \<Rightarrow> stocktake_item \<Rightarrow> bool" where
  "has_product s i = (length (filter (\<lambda>p. product_id p = item_product i) (products s)) = 1)"



subsection \<open>finalize\_stocktake\_chunk and assign\_free\_stocktake\_chunk\<close>

definition finalize_stocktake_chunk :: "nat \<Rightarrow> db \<Rightarrow> error + db" where
  "finalize_stocktake_chunk cid s =
     (case qs_get (filter (\<lambda>c. chunk_id c = cid) (chunks s)) of
        Inl e \<Rightarrow> Inl e
      | Inr chunk_obj \<Rightarrow>
          if chunk_locked chunk_obj
          then Inl (APIException ''Chunk already locked.'')
          else Inr (save_chunk (chunk_obj\<lparr>chunk_locked := True, chunk_owner := None\<rparr>) s))"

text \<open>
  The first query is \<^verbatim>\<open>get(stocktake_id=..., owner_id=user_id)\<close>, of which only
  \<^verbatim>\<open>DoesNotExist\<close> is caught. The second is the filter on unlocked chunks without
  owner, whose \<^verbatim>\<open>first()\<close> row gets the user as owner.
\<close>

definition assign_free_stocktake_chunk ::
  "nat \<Rightarrow> nat \<Rightarrow> db \<Rightarrow> error + (stocktake_chunk option \<times> db)" where
  "assign_free_stocktake_chunk user_id sid s =
     (case qs_get (filter (\<lambda>c. chunk_stocktake c = sid \<and> chunk_owner c = Some user_id) (chunks s)) of
        Inr chunk_obj \<Rightarrow> Inr (Some chunk_obj, s)
      | Inl e \<Rightarrow>
          if e \<noteq> DoesNotExist then Inl e
          else
            (let chunk_objs = filter (\<lambda>c. chunk_stocktake c = sid \<and> chunk_locked c = False
                                          \<and> chunk_owner c = None) (chunks s)
             in case qs_first chunk_id chunk_objs of
                  None \<Rightarrow> Inr (None, s)
                | Some chunk_obj \<Rightarrow>
                    (let chunk_obj' = chunk_obj\<lparr>chunk_owner := Some user_id\<rparr>
                     in Inr (Some chunk_obj', save_chunk chunk_obj' s))))"

subsection \<open>What a call of initiate\_stocktaking created\<close>

text \<open>
  The rows a call appended to the chunk and item tables, and the products of the items
  that refer to a chunk.
\<close>

definition created_chunks :: "db \<Rightarrow> db \<Rightarrow> stocktake_chunk list" where
  "created_chunks s s' = drop (length (chunks s)) (chunks s')"


definition chunk_products :: "stocktake_item list \<Rightarrow> stocktake_chunk \<Rightarrow> nat list" where
  "chunk_products its c = map item_product (filter (\<lambda>i. item_chunk i = chunk_id c) its)"

subsection \<open>The calls a client can make, and the states they reach\<close>

datatype call =
    CreateProduct string string nat
  | CreateProductTransaction int nat trx_type int "reference option"
  | InitiateStocktaking int int
  | FinalizeStocktaking int nat
  | FinalizeStocktakeChunk nat
  | AssignFreeStocktakeChunk nat nat

text \<open>The database after a call; a call that raises leaves no new database.\<close>

fun exec :: "call \<Rightarrow> db \<Rightarrow> error + db" where
  "exec (CreateProduct code name' cat) s = Inr (snd (create_product code name' cat s))"
| "exec (CreateProductTransaction now pid ty qty ref) s =
     map_sum id snd (create_product_transaction now pid ty qty ref s)"
| "exec (InitiateStocktaking dflt_qty chunk_size) s =
     map_sum id snd (initiate_stocktaking dflt_qty chunk_size s)"
| "exec (FinalizeStocktaking now sid) s = map_sum id snd (finalize_stocktaking now sid s)"
| "exec (FinalizeStocktakeChunk cid) s = finalize_stocktake_chunk cid s"
| "exec (AssignFreeStocktakeChunk user_id sid) s =
     map_sum id snd (assign_free_stocktake_chunk user_id sid s)"

inductive reachable :: "db \<Rightarrow> bool" where
  reachable_empty: "reachable empty_db"
| reachable_exec: "reachable s \<Longrightarrow> exec c s = Inr s' \<Longrightarrow> reachable s'"

text \<open>The states a list of calls leads through, for running examples.\<close>

fun exec_all :: "call list \<Rightarrow> db \<Rightarrow> error + db" where
  "exec_all [] s = Inr s"
| "exec_all (c # cs) s = (case exec c s of Inl e \<Rightarrow> Inl e | Inr s' \<Rightarrow> exec_all cs s')"

definition locked_chunks_unowned :: "db \<Rightarrow> bool" where
  "locked_chunks_unowned s = list_all (\<lambda>c. chunk_locked c \<longrightarrow> chunk_owner c = None) (chunks s)"

section \<open>Supplier catalog cache and delivery pipeline\<close>

text \<open>
  The supplier integrations (\<^verbatim>\<open>suppliers.get_supplier_api(internal_name)\<close>) are not
  part of this module; each capability is a parameter of the model, a function of the
  supplier's internal name and the call's arguments:
  \<^item> \<open>retrieve_product name sku\<close>: the product data, or None when the supplier does not
    know the SKU;
  \<^item> \<open>parse_delivery_report name path\<close>: the line items of a report;
  \<^item> \<open>order_product name sku qty\<close>: True when the order is placed, False when the call
    raises \<^verbatim>\<open>SupplierAPIException\<close>.
\<close>

record product_data =
  pd_price :: rat
  pd_name :: string
  pd_units :: int


definition save_supplier_product :: "supplier_product \<Rightarrow> db \<Rightarrow> db" where
  "save_supplier_product sp s =
     s\<lparr>supplier_products := map (\<lambda>r. if sp_id r = sp_id sp then sp else r) (supplier_products s)\<rparr>"

text \<open>
  \<^verbatim>\<open>SupplierProduct.objects.update_or_create(supplier_id=..., sku=..., defaults=...)\<close>:
  the row with that key gets the three default fields and is saved; when there is none, a
  row is created from the key and the defaults. The fields of a new row that the call does
  not give take the model's field defaults, declared in \<^verbatim>\<open>models.py\<close>: they are the
  parameter \<open>blank\<close>.
\<close>

definition update_or_create ::
  "supplier_product \<Rightarrow> nat \<Rightarrow> string \<Rightarrow> product_data \<Rightarrow> db \<Rightarrow> error + (supplier_product \<times> db)" where
  "update_or_create blank sid sku pd s =
     (case qs_get (filter (\<lambda>sp. sp_supplier sp = sid \<and> sp_sku sp = sku) (supplier_products s)) of
        Inr sp \<Rightarrow>
          (let sp' = sp\<lparr>sp_price := pd_price pd, sp_name := pd_name pd, sp_units := pd_units pd\<rparr>
           in Inr (sp', save_supplier_product sp' s))
      | Inl e \<Rightarrow>
          if e \<noteq> DoesNotExist then Inl e
          else
            (let sp' = blank\<lparr>sp_id := fresh_id (map sp_id (supplier_products s)),
                              sp_supplier := sid, sp_sku := sku, sp_price := pd_price pd,
                              sp_name := pd_name pd, sp_units := pd_units pd\<rparr>
             in Inr (sp', s\<lparr>supplier_products := supplier_products s @ [sp']\<rparr>)))"

text \<open>The second half of \<^verbatim>\<open>get_supplier_product\<close>, from the comment "Product has not been found in the database" on.\<close>

definition fetch_supplier_product ::
  "(string \<Rightarrow> string \<Rightarrow> product_data option) \<Rightarrow> supplier_product \<Rightarrow> nat \<Rightarrow> string \<Rightarrow> db
     \<Rightarrow> error + (supplier_product option \<times> db)" where
  "fetch_supplier_product retrieve_product blank sid sku s =
     (case qs_get (filter (\<lambda>su. supplier_id su = sid) (suppliers s)) of
        Inl e \<Rightarrow> Inl e
      | Inr supplier_obj \<Rightarrow>
          (case retrieve_product (internal_name supplier_obj) sku of
             None \<Rightarrow> Inr (None, s)
           | Some product_data \<Rightarrow>
               (case update_or_create blank sid sku product_data s of
                  Inl e \<Rightarrow> Inl e
                | Inr (product_obj, s') \<Rightarrow> Inr (Some product_obj, s'))))"

definition get_supplier_product ::
  "(string \<Rightarrow> string \<Rightarrow> product_data option) \<Rightarrow> supplier_product \<Rightarrow> nat \<Rightarrow> string \<Rightarrow> bool \<Rightarrow> db
     \<Rightarrow> error + (supplier_product option \<times> db)" where
  "get_supplier_product retrieve_product blank sid sku refresh s =
     (if \<not> refresh then
        (case qs_get (filter (\<lambda>sp. sp_supplier sp = sid \<and> sp_sku sp = sku) (supplier_products s)) of
           Inr sp \<Rightarrow> Inr (Some sp, s)
         | Inl e \<Rightarrow>
             if e \<noteq> DoesNotExist then Inl e
             else fetch_supplier_product retrieve_product blank sid sku s)
      else fetch_supplier_product retrieve_product blank sid sku s)"








section \<open>Python's floating-point division\<close>

text \<open>
  \<^verbatim>\<open>a / b\<close> on two Python integers is true division: the result is the IEEE 754
  double (binary64) nearest to the exact quotient, ties going to the even significand.
  It raises ZeroDivisionError for \<^verbatim>\<open>b == 0\<close> and OverflowError when the rounded result
  is not a finite double. A double is represented here by the rational number it stands
  for.
\<close>

definition pow2 :: "int \<Rightarrow> rat" where
  "pow2 k = (if 0 \<le> k then 2 ^ nat k else 1 / 2 ^ nat (- k))"

definition round_half_even :: "rat \<Rightarrow> int" where
  "round_half_even r =
     (let f = \<lfloor>r\<rfloor>; d = r - of_int f
      in if d < 1 / 2 then f
         else if 1 / 2 < d then f + 1
         else if even f then f else f + 1)"

text \<open>The exponent \<open>e\<close> of a rational \<open>r \<noteq> 0\<close>: \<open>2 ^ e \<le> |r| < 2 ^ (e + 1)\<close>.\<close>

definition exponent_of :: "rat \<Rightarrow> int" where
  "exponent_of r =
     (let (a, b) = quotient_of \<bar>r\<bar>;
          k = bitlen a - bitlen b
      in if pow2 k \<le> \<bar>r\<bar> then k else k - 1)"

text \<open>
  Rounding to 53 significant bits; below \<open>2 ^ (-1022)\<close> the doubles are subnormal and
  lie \<open>2 ^ (-1074)\<close> apart.
\<close>

definition round_to_double :: "rat \<Rightarrow> rat" where
  "round_to_double r =
     (if r = 0 then 0
      else (let e = max (exponent_of r) (- 1022);
                q = pow2 (e - 52)
            in of_int (round_half_even (r / q)) * q))"

text \<open>A double is finite when its magnitude is below \<open>2 ^ 1024\<close>.\<close>

definition is_finite_double :: "rat \<Rightarrow> bool" where
  "is_finite_double v = (v = 0 \<or> exponent_of v < 1024)"

definition py_truediv :: "int \<Rightarrow> int \<Rightarrow> error + rat" where
  "py_truediv a b =
     (if b = 0 then Inl ZeroDivisionError
      else (let v = round_to_double (of_int a / of_int b)
            in if is_finite_double v then Inr v else Inl OverflowError))"

section \<open>Replenishment planner\<close>

text \<open>
  The two local functions of \<^verbatim>\<open>order_from_supplier\<close>. \<^verbatim>\<open>qty / sp.qty\<close> is the true
  division of two integers and \<^verbatim>\<open>math.ceil\<close> gives the least integer not below the
  double.

  Modelled from the spec: \<^verbatim>\<open>SupplierProduct.qty\<close> and \<^verbatim>\<open>SupplierProduct.unit_price\<close>,
  declared in \<^verbatim>\<open>models.py\<close>: the batch size is an integer and the unit price a number
  whose product with an integer is exact.
\<close>

definition minimum_qty :: "int \<Rightarrow> supplier_product \<Rightarrow> error + int" where
  "minimum_qty qty sp =
     (case py_truediv qty (sp_qty sp) of
        Inl e \<Rightarrow> Inl e
      | Inr v \<Rightarrow> Inr \<lceil>v\<rceil>)"

definition cost :: "int \<Rightarrow> supplier_product \<Rightarrow> error + rat" where
  "cost qty sp =
     (case minimum_qty qty sp of
        Inl e \<Rightarrow> Inl e
      | Inr m \<Rightarrow> Inr (of_int m * of_int (sp_qty sp) * sp_unit_price sp))"

text \<open>
  \<^verbatim>\<open>sorted(products, key=cost)\<close> calls the key function on every element, in the order
  of the list, before it compares anything; an exception of a key call leaves the
  function. The sort is stable.
\<close>

fun keys_of :: "('a \<Rightarrow> error + rat) \<Rightarrow> 'a list \<Rightarrow> error + ('a \<times> rat) list" where
  "keys_of key [] = Inr []"
| "keys_of key (x # xs) =
     (case key x of
        Inl e \<Rightarrow> Inl e
      | Inr k \<Rightarrow> (case keys_of key xs of
                    Inl e \<Rightarrow> Inl e
                  | Inr ks \<Rightarrow> Inr ((x, k) # ks)))"

definition sorted_by :: "('a \<Rightarrow> error + rat) \<Rightarrow> 'a list \<Rightarrow> error + 'a list" where
  "sorted_by key xs =
     (case keys_of key xs of
        Inl e \<Rightarrow> Inl e
      | Inr ks \<Rightarrow> Inr (map fst (sort_key snd ks)))"

text \<open>
  The loop \<^verbatim>\<open>for product in products: ... else: ...\<close>. The argument \<open>bound\<close> is the
  loop variable \<^verbatim>\<open>product\<close> as the \<^verbatim>\<open>else\<close> branch finds it: None before the first
  iteration (the name is not bound yet), afterwards the offering of the last iteration.
  The second component of the result lists the calls of \<^verbatim>\<open>order_product\<close> that were
  made, as (supplier, SKU, quantity).
\<close>

fun order_loop ::
  "(string \<Rightarrow> string \<Rightarrow> int \<Rightarrow> bool) \<Rightarrow> int \<Rightarrow> db \<Rightarrow> supplier_product option \<Rightarrow> supplier_product list
     \<Rightarrow> (error + supplier_product) \<times> (string \<times> string \<times> int) list" where
  "order_loop order_product qty s bound [] =
     (case bound of
        None \<Rightarrow> (Inl UnboundLocalError, [])
      | Some product \<Rightarrow> (Inl (APIException (''Could not order '' @ sp_sku product @ ''.'')), []))"
| "order_loop order_product qty s bound (product # rest) =
     (case qs_get (filter (\<lambda>su. supplier_id su = sp_supplier product) (suppliers s)) of
        Inl e \<Rightarrow> (Inl e, [])
      | Inr supplier_obj \<Rightarrow>
          (case minimum_qty qty product of
             Inl e \<Rightarrow> (Inl e, [])
           | Inr m \<Rightarrow>
               (let attempt = (internal_name supplier_obj, sp_sku product, m)
                in if order_product (internal_name supplier_obj) (sp_sku product) m
                   then (Inr product, [attempt])
                   else (let (r, attempts) = order_loop order_product qty s (Some product) rest
                         in (r, attempt # attempts)))))"

text \<open>The candidate offerings: the two \<^verbatim>\<open>filter\<close> calls at the head of \<^verbatim>\<open>order_from_supplier\<close>.\<close>

definition candidates :: "nat \<Rightarrow> nat option \<Rightarrow> db \<Rightarrow> supplier_product list" where
  "candidates pid sid s =
     (let products = filter (\<lambda>sp. sp_product sp = Some pid) (supplier_products s)
      in case sid of
           None \<Rightarrow> products
         | Some i \<Rightarrow> filter (\<lambda>sp. sp_supplier sp = i) products)"

definition order_from_supplier ::
  "(string \<Rightarrow> string \<Rightarrow> int \<Rightarrow> bool) \<Rightarrow> nat \<Rightarrow> int \<Rightarrow> nat option \<Rightarrow> db
     \<Rightarrow> (error + supplier_product) \<times> (string \<times> string \<times> int) list" where
  "order_from_supplier order_product pid qty sid s =
     (case sorted_by (cost qty) (candidates pid sid s) of
        Inl e \<Rightarrow> (Inl e, [])
      | Inr products' \<Rightarrow> order_loop order_product qty s None products')"







section \<open>Forecast engine\<close>

text \<open>
  Time stamps (\<^verbatim>\<open>date_created\<close>) count seconds; \<^verbatim>\<open>TruncDay(...)\<close> followed by
  \<^verbatim>\<open>toordinal()\<close> is the number of the day the time stamp lies in. Dates are their
  ordinals. \<^verbatim>\<open>date.fromordinal\<close> takes a C int (OverflowError outside 32 bits) and
  accepts the ordinals from 1 to that of \<^verbatim>\<open>date.max\<close>, 3652059 (ValueError outside).
\<close>

definition day_of :: "int \<Rightarrow> int" where
  "day_of ts = ts div 86400"

definition fromordinal :: "int \<Rightarrow> error + int" where
  "fromordinal n =
     (if n < - (2 ^ 31) \<or> 2 ^ 31 \<le> n then Inl OverflowError
      else if n < 1 \<or> 3652059 < n then Inl ValueError
      else Inr n)"

text \<open>\<^verbatim>\<open>order_by('-date_created').first()\<close>: a row with the greatest time stamp.\<close>

definition latest :: "product_transaction list \<Rightarrow> product_transaction option" where
  "latest ts = (case sort_key (\<lambda>t. - date_created t) ts of [] \<Rightarrow> None | t # _ \<Rightarrow> Some t)"

text \<open>
  The aggregate query that groups transactions by day and sums their quantities; the
  rows come in the order of the days, as in the table of the source's comment.
\<close>

definition daily_totals :: "product_transaction list \<Rightarrow> (int \<times> int) list" where
  "daily_totals ts =
     map (\<lambda>d. (d, sum_list (map trx_qty (filter (\<lambda>t. day_of (date_created t) = d) ts))))
         (sort (remdups (map (\<lambda>t. day_of (date_created t)) ts)))"

text \<open>\<^verbatim>\<open>itertools.accumulate\<close>: the running sums.\<close>

fun accumulate_from :: "int \<Rightarrow> int list \<Rightarrow> int list" where
  "accumulate_from acc [] = []"
| "accumulate_from acc (y # ys) = (acc + y) # accumulate_from (acc + y) ys"

definition accumulate :: "int list \<Rightarrow> int list" where
  "accumulate ys = accumulate_from 0 ys"

text \<open>
  \<^verbatim>\<open>(-initial_qty / svr.coef_).astype(int).item()\<close>. The integer \<^verbatim>\<open>-initial_qty\<close>
  becomes a double, the quotient by the slope is the nearest double (an infinity when it
  overflows), and \<^verbatim>\<open>astype(int)\<close> cuts the fraction off, towards zero, into a 64-bit
  integer; for a double outside the 64-bit range the conversion gives \<open>- 2 ^ 63\<close> (as
  on x86-64). The
  sums of quantities are 64-bit integers of the database.
\<close>

definition astype_int :: "rat \<Rightarrow> int" where
  "astype_int v =
     (if v < - (2 ^ 63) \<or> 2 ^ 63 \<le> v then - (2 ^ 63)
      else if v < 0 then \<lceil>v\<rceil> else \<lfloor>v\<rfloor>)"

definition np_truediv :: "int \<Rightarrow> rat \<Rightarrow> rat" where
  "np_truediv n coef = round_to_double (round_to_double (of_int n) / coef)"

text \<open>The queries of \<^verbatim>\<open>predict_quantity\<close>, each named as the variable it is assigned to.\<close>

definition restock_trx :: "db \<Rightarrow> product_transaction option" where
  "restock_trx s = latest (restocks (finalized (transactions s)))"

definition initial_qty :: "db \<Rightarrow> product_transaction \<Rightarrow> int" where
  "initial_qty s r =
     sum_list (map trx_qty (filter (\<lambda>t. date_created t \<le> date_created r) (finalized (transactions s))))"

definition trx_objs :: "db \<Rightarrow> product_transaction \<Rightarrow> (int \<times> int) list" where
  "trx_objs s r =
     daily_totals (filter (\<lambda>t. date_created t > date_created r) (finalized (transactions s)))"

text \<open>
  The data points: \<open>x\<close> holds the day offsets, preceded by -1, \<open>y\<close> the initial quantity and
  the daily sums; a last point is appended unless \<^verbatim>\<open>today_ordinal\<close> is among the
  offsets; \<open>y\<close> is then accumulated.
\<close>

definition data_points :: "int \<Rightarrow> int \<Rightarrow> (int \<times> int) list \<Rightarrow> int list \<times> int list" where
  "data_points today_ordinal initial rows =
     (let date_offset = fst (hd rows);
          x = -1 # map (\<lambda>row. fst row - date_offset) rows;
          y = initial # map snd rows;
          x' = (if today_ordinal \<notin> set x then x @ [today_ordinal - date_offset] else x);
          y' = (if today_ordinal \<notin> set x then y @ [0] else y)
      in (x', accumulate y'))"

text \<open>
  \<^verbatim>\<open>predict_quantity(product_id, target, current_date)\<close>. The regression of scikit-learn
  is the parameter \<open>svr_coef\<close>: the slope \<^verbatim>\<open>svr.coef_\<close> that \<^verbatim>\<open>SVR.fit\<close> finds for the
  data points, a double. \<open>today_ordinal\<close> is \<^verbatim>\<open>(current_date or date.today()).toordinal()\<close>.
  The result is the ordinal of the predicted date, or None. The ledger queries are those
  of the source: \<^verbatim>\<open>ProductTransaction.objects.finalized()\<close>, the transactions of all
  products.
\<close>

definition predict_quantity ::
  "(int list \<Rightarrow> int list \<Rightarrow> rat) \<Rightarrow> nat \<Rightarrow> int \<Rightarrow> int \<Rightarrow> db \<Rightarrow> error + int option" where
  "predict_quantity svr_coef pid target today_ordinal s =
     (case qs_get (filter (\<lambda>p. product_id p = pid) (products s)) of
        Inl e \<Rightarrow> Inl e
      | Inr product_obj \<Rightarrow>
          if product_qty s (product_id product_obj) \<le> target then Inr None
          else
            (case restock_trx s of
               None \<Rightarrow> Inr None
             | Some r \<Rightarrow>
                 (let rows = trx_objs s r
                  in if rows = [] then Inr None
                     else
                       (let date_offset = fst (hd rows);
                            (x, y) = data_points today_ordinal (initial_qty s r) rows;
                            coef = svr_coef x y
                        in if coef \<ge> 0 then Inr None
                           else
                             (let days = astype_int (np_truediv (- initial_qty s r) coef)
                              in map_sum id Some (fromordinal (date_offset + days)))))))"

text \<open>
  The date the specification names, by its words: the offset of the last point of the
  fitted series plus the rounded quotient, converted back to a date.
\<close>

definition spec_predicted_ordinal :: "int \<Rightarrow> int list \<Rightarrow> int \<Rightarrow> rat \<Rightarrow> int" where
  "spec_predicted_ordinal date_offset x initial slope =
     date_offset + (last x + round (- of_int initial / slope))"

section \<open>Example databases\<close>

subsection \<open>A stocktake, step by step\<close>

text \<open>
  Three products are created, a stocktake with chunks of two is initiated, user 7 takes a
  chunk and finishes it. The databases after these steps are written out below.
\<close>

definition stocktake_calls :: "call list" where
  "stocktake_calls =
     [CreateProduct ''4001'' ''Cola'' 2, CreateProduct ''4002'' ''Chips'' 1,
      CreateProduct ''4003'' ''Water'' 2,
      InitiateStocktaking 0 2, AssignFreeStocktakeChunk 7 1, FinalizeStocktakeChunk 1]"



definition products_db :: db where
  "products_db = empty_db\<lparr>products :=
     [\<lparr>product_id = 1, product_code = ''4001'', product_name = ''Cola'', product_category = 2\<rparr>,
      \<lparr>product_id = 2, product_code = ''4002'', product_name = ''Chips'', product_category = 1\<rparr>,
      \<lparr>product_id = 3, product_code = ''4003'', product_name = ''Water'', product_category = 2\<rparr>]\<rparr>"

definition initiated_db :: db where
  "initiated_db = products_db\<lparr>
     stocktakes := [\<lparr>stocktake_id = 1, stocktake_locked = False\<rparr>],
     chunks := [\<lparr>chunk_id = 1, chunk_stocktake = 1, chunk_locked = False, chunk_owner = None\<rparr>,
                \<lparr>chunk_id = 2, chunk_stocktake = 1, chunk_locked = False, chunk_owner = None\<rparr>],
     stocktake_items :=
       [\<lparr>item_id = 1, item_chunk = 1, item_product = 2, item_qty = 0\<rparr>,
        \<lparr>item_id = 2, item_chunk = 1, item_product = 1, item_qty = 0\<rparr>,
        \<lparr>item_id = 3, item_chunk = 2, item_product = 3, item_qty = 0\<rparr>]\<rparr>"

definition assigned_db :: db where
  "assigned_db = initiated_db\<lparr>chunks :=
     [\<lparr>chunk_id = 1, chunk_stocktake = 1, chunk_locked = False, chunk_owner = Some 7\<rparr>,
      \<lparr>chunk_id = 2, chunk_stocktake = 1, chunk_locked = False, chunk_owner = None\<rparr>]\<rparr>"

definition counted_db :: db where
  "counted_db = initiated_db\<lparr>chunks :=
     [\<lparr>chunk_id = 1, chunk_stocktake = 1, chunk_locked = True, chunk_owner = None\<rparr>,
      \<lparr>chunk_id = 2, chunk_stocktake = 1, chunk_locked = False, chunk_owner = None\<rparr>]\<rparr>"


text \<open>The same stocktake with both chunks finished.\<close>

definition all_counted_db :: db where
  "all_counted_db = initiated_db\<lparr>chunks :=
     [\<lparr>chunk_id = 1, chunk_stocktake = 1, chunk_locked = True, chunk_owner = None\<rparr>,
      \<lparr>chunk_id = 2, chunk_stocktake = 1, chunk_locked = True, chunk_owner = None\<rparr>]\<rparr>"



subsection \<open>A ledger of two products\<close>

text \<open>
  Product 2 was restocked with 100 pieces on day 10 and sold 10 pieces on each of the
  days 12 and 13; product 1 was never restocked, a correction of 5 pieces on day 11 is
  its only transaction. All transactions are finalized.
\<close>

definition forecast_db :: db where
  "forecast_db = empty_db\<lparr>
     products :=
       [\<lparr>product_id = 1, product_code = ''4001'', product_name = ''Cola'', product_category = 2\<rparr>,
        \<lparr>product_id = 2, product_code = ''4002'', product_name = ''Chips'', product_category = 1\<rparr>],
     transactions :=
       [\<lparr>trx_id = 1, trx_product = 2, trx_type_of = INVENTORY, trx_qty = 100,
         date_created = 10 * 86400 + 3600, trx_states = [(PENDING, None), (FINALIZED, None)]\<rparr>,
        \<lparr>trx_id = 2, trx_product = 1, trx_type_of = CORRECTION, trx_qty = 5,
         date_created = 11 * 86400 + 7200, trx_states = [(PENDING, None), (FINALIZED, None)]\<rparr>,
        \<lparr>trx_id = 3, trx_product = 2, trx_type_of = OTHER_TRX_TYPE, trx_qty = - 10,
         date_created = 12 * 86400 + 60, trx_states = [(PENDING, None), (FINALIZED, None)]\<rparr>,
        \<lparr>trx_id = 4, trx_product = 2, trx_type_of = OTHER_TRX_TYPE, trx_qty = - 10,
         date_created = 13 * 86400 + 60, trx_states = [(PENDING, None), (FINALIZED, None)]\<rparr>]\<rparr>"

subsection \<open>A supplier catalog\<close>

text \<open>
  Two suppliers and three offerings of product 1; product 2 has no offering. The supplier
  capabilities of the example: narlivs knows SKU 113 apart from the cached ones, the
  report of delivery 1 has four lines, and orders at axfood fail.
\<close>

definition catalog_db :: db where
  "catalog_db = empty_db\<lparr>
     products :=
       [\<lparr>product_id = 1, product_code = ''4001'', product_name = ''Cola'', product_category = 2\<rparr>,
        \<lparr>product_id = 2, product_code = ''4002'', product_name = ''Chips'', product_category = 1\<rparr>],
     suppliers := [\<lparr>supplier_id = 1, internal_name = ''narlivs''\<rparr>,
                   \<lparr>supplier_id = 2, internal_name = ''axfood''\<rparr>],
     supplier_products :=
       [\<lparr>sp_id = 1, sp_supplier = 1, sp_product = Some 1, sp_sku = ''111'', sp_price = 120,
         sp_name = ''Cola 24'', sp_units = 1, sp_qty_multiplier = 24, sp_qty = 24, sp_unit_price = 5\<rparr>,
        \<lparr>sp_id = 2, sp_supplier = 1, sp_product = Some 1, sp_sku = ''112'', sp_price = 33,
         sp_name = ''Cola 6'', sp_units = 1, sp_qty_multiplier = 6, sp_qty = 6, sp_unit_price = 11 / 2\<rparr>,
        \<lparr>sp_id = 3, sp_supplier = 2, sp_product = Some 1, sp_sku = ''900'', sp_price = 6,
         sp_name = ''Cola'', sp_units = 1, sp_qty_multiplier = 1, sp_qty = 1, sp_unit_price = 6\<rparr>],
     deliveries := [\<lparr>delivery_id = 1, delivery_supplier = 1, delivery_report = ''report.pdf'',
                     delivery_locked = False\<rparr>]\<rparr>"

definition blank_supplier_product :: supplier_product where
  "blank_supplier_product =
     \<lparr>sp_id = 0, sp_supplier = 0, sp_product = None, sp_sku = [], sp_price = 0, sp_name = [],
      sp_units = 1, sp_qty_multiplier = 1, sp_qty = 1, sp_unit_price = 0\<rparr>"

definition example_retrieve_product :: "string \<Rightarrow> string \<Rightarrow> product_data option" where
  "example_retrieve_product supplier sku =
     (if supplier = ''narlivs'' \<and> sku = ''113''
      then Some \<lparr>pd_price = 40, pd_name = ''Fanta 4'', pd_units = 1\<rparr> else None)"


definition example_order_product :: "string \<Rightarrow> string \<Rightarrow> int \<Rightarrow> bool" where
  "example_order_product supplier sku qty = (supplier \<noteq> ''axfood'')"







section \<open>Verification: auxiliary facts\<close>

subsection \<open>Primary keys and the range of the chunk loop\<close>












subsection \<open>Locked chunks have no owner\<close>

lemma chunks_create_product [simp]: "chunks (snd (create_product code n cat s)) = chunks s"
  by (simp add: create_product_def Let_def)

lemma chunks_create_product_transaction:
  "create_product_transaction now pid ty qty ref s = Inr (t, s') \<Longrightarrow> chunks s' = chunks s"
  by (auto simp: create_product_transaction_def Let_def split: sum.splits)

lemma chunks_create_item [simp]: "chunks (create_item q cid p s) = chunks s"
  by (simp add: create_item_def)

lemma chunks_create_items [simp]: "chunks (create_items q cid ps s) = chunks s"
  by (induction ps arbitrary: s) simp_all

lemma luo_create_chunks:
  "locked_chunks_unowned s \<Longrightarrow> locked_chunks_unowned (create_chunks q sid n ps is s)"
proof (induction "is" arbitrary: s)
  case Nil
  then show ?case by simp
next
  case (Cons i "is")
  have "locked_chunks_unowned (create_items q (chunk_id (fst (create_chunk sid s))) (take n (drop i ps)) (snd (create_chunk sid s)))"
    using Cons.prems by (simp add: locked_chunks_unowned_def create_chunk_def Let_def)
  from Cons.IH [OF this] show ?case
    by (simp add: case_prod_beta Let_def)
qed

lemma luo_initiate:
  assumes "locked_chunks_unowned s" "initiate_stocktaking q cs s = Inr (st, s')"
  shows "locked_chunks_unowned s'"
proof -
  have "locked_chunks_unowned (snd (create_stocktake s))"
    using assms(1) by (simp add: locked_chunks_unowned_def create_stocktake_def Let_def)
  then show ?thesis
    using assms(2)
    by (auto simp: initiate_stocktaking_def Let_def case_prod_beta luo_create_chunks
             split: if_splits sum.splits)
qed

lemma chunks_correct_items:
  "correct_items now its s = Inr s' \<Longrightarrow> chunks s' = chunks s"
proof (induction its arbitrary: s)
  case Nil
  then show ?case by simp
next
  case (Cons a its)
  then show ?case
    by (auto split: sum.splits dest: chunks_create_product_transaction)
qed

lemma chunks_correct_chunks:
  "correct_chunks now cs s = Inr s' \<Longrightarrow> chunks s' = chunks s"
proof (induction cs arbitrary: s)
  case Nil
  then show ?case by simp
next
  case (Cons a cs)
  then show ?case
    by (auto split: sum.splits dest: chunks_correct_items)
qed

lemma chunks_finalize_stocktaking:
  "finalize_stocktaking now sid s = Inr (st, s') \<Longrightarrow> chunks s' = chunks s"
  by (auto simp: finalize_stocktaking_def Let_def save_stocktake_def
           split: sum.splits if_splits dest: chunks_correct_chunks)

lemma luo_save_chunk:
  "locked_chunks_unowned s \<Longrightarrow> (chunk_locked c \<longrightarrow> chunk_owner c = None)
     \<Longrightarrow> locked_chunks_unowned (save_chunk c s)"
  by (auto simp: locked_chunks_unowned_def save_chunk_def list_all_iff)

lemma luo_finalize_stocktake_chunk:
  "locked_chunks_unowned s \<Longrightarrow> finalize_stocktake_chunk cid s = Inr s'
     \<Longrightarrow> locked_chunks_unowned s'"
  by (auto simp: finalize_stocktake_chunk_def split: sum.splits if_splits intro!: luo_save_chunk)

lemma qs_first_mem: "qs_first pk xs = Some x \<Longrightarrow> x \<in> set xs"
proof -
  assume "qs_first pk xs = Some x"
  then obtain ys where "sort_key pk xs = x # ys"
    by (auto simp: qs_first_def split: list.splits)
  then have "x \<in> set (sort_key pk xs)" by simp
  then show ?thesis by simp
qed

lemma luo_assign:
  assumes "locked_chunks_unowned s" "assign_free_stocktake_chunk u sid s = Inr (r, s')"
  shows "locked_chunks_unowned s'"
proof (cases "qs_get (filter (\<lambda>c. chunk_stocktake c = sid \<and> chunk_owner c = Some u) (chunks s))")
  case (Inr c)
  then show ?thesis using assms by (simp add: assign_free_stocktake_chunk_def)
next
  case (Inl e)
  show ?thesis
  proof (cases "qs_first chunk_id (filter (\<lambda>c. chunk_stocktake c = sid \<and> chunk_locked c = False \<and> chunk_owner c = None) (chunks s))")
    case None
    then show ?thesis using assms Inl
      by (auto simp: assign_free_stocktake_chunk_def split: if_splits)
  next
    case (Some c)
    from qs_first_mem [OF Some] have "\<not> chunk_locked c" by simp
    then show ?thesis using assms Inl Some
      by (auto simp: assign_free_stocktake_chunk_def Let_def split: if_splits intro!: luo_save_chunk)
  qed
qed

lemma luo_exec:
  assumes "locked_chunks_unowned s" "exec c s = Inr s'"
  shows "locked_chunks_unowned s'"
proof (cases c)
  case (CreateProduct x11 x12 x13)
  then show ?thesis using assms by (auto simp: locked_chunks_unowned_def)
next
  case (CreateProductTransaction x21 x22 x23 x24 x25)
  then show ?thesis using assms
    by (cases "create_product_transaction x21 x22 x23 x24 x25 s")
       (auto simp: locked_chunks_unowned_def dest: chunks_create_product_transaction)
next
  case (InitiateStocktaking x31 x32)
  then show ?thesis using assms
    by (cases "initiate_stocktaking x31 x32 s") (auto dest: luo_initiate)
next
  case (FinalizeStocktaking x41 x42)
  then show ?thesis using assms
    by (cases "finalize_stocktaking x41 x42 s")
       (auto simp: locked_chunks_unowned_def dest: chunks_finalize_stocktaking)
next
  case (FinalizeStocktakeChunk x5)
  then show ?thesis using assms by (auto dest: luo_finalize_stocktake_chunk)
next
  case (AssignFreeStocktakeChunk x61 x62)
  then show ?thesis using assms
    by (cases "assign_free_stocktake_chunk x61 x62 s") (auto dest: luo_assign)
qed

lemma luo_reachable: "reachable s \<Longrightarrow> locked_chunks_unowned s"
proof (induction rule: reachable.induct)
  case reachable_empty
  then show ?case by (simp add: locked_chunks_unowned_def empty_db_def)
next
  case (reachable_exec s c s')
  then show ?case by (blast intro: luo_exec)
qed

lemma reachable_exec_all:
  "reachable s \<Longrightarrow> exec_all cs s = Inr s' \<Longrightarrow> reachable s'"
proof (induction cs arbitrary: s)
  case Nil
  then show ?case by simp
next
  case (Cons c cs)
  then show ?case
    by (auto split: sum.splits intro: reachable_exec)
qed

lemma create_chunks_appends:
  "\<exists>cs. chunks (create_chunks q sid n ps is s) = chunks s @ cs
        \<and> list_all (\<lambda>ch. \<not> chunk_locked ch \<and> chunk_owner ch = None) cs"
proof (induction "is" arbitrary: s)
  case Nil
  then show ?case by simp
next
  case (Cons i "is")
  let ?s2 = "create_items q (chunk_id (fst (create_chunk sid s))) (take n (drop i ps)) (snd (create_chunk sid s))"
  from Cons [of ?s2] obtain cs where
    "chunks (create_chunks q sid n ps is ?s2) = chunks ?s2 @ cs"
    "list_all (\<lambda>ch. \<not> chunk_locked ch \<and> chunk_owner ch = None) cs" by blast
  then show ?case
    by (simp add: case_prod_beta Let_def create_chunk_def)
qed

lemma initiate_created_open:
  assumes "initiate_stocktaking q n s = Inr (st, s')"
  shows "list_all (\<lambda>ch. \<not> chunk_locked ch \<and> chunk_owner ch = None) (created_chunks s s')"
proof -
  obtain idxs where s': "s' = create_chunks q (stocktake_id (fst (create_stocktake s))) (nat n)
        (sort_key product_category (products (snd (create_stocktake s)))) idxs (snd (create_stocktake s))"
    using assms
    by (auto simp: initiate_stocktaking_def Let_def case_prod_beta split: if_splits sum.splits)
  have cs0: "chunks (snd (create_stocktake s)) = chunks s"
    by (simp add: create_stocktake_def Let_def)
  obtain cs where "chunks s' = chunks (snd (create_stocktake s)) @ cs"
      "list_all (\<lambda>ch. \<not> chunk_locked ch \<and> chunk_owner ch = None) cs"
    unfolding s' using create_chunks_appends by blast
  then show ?thesis by (simp add: created_chunks_def cs0)
qed

lemma assign_effect:
  assumes "assign_free_stocktake_chunk u sid s = Inr (r, s')"
  shows "s' = s \<or> (\<exists>ch. r = Some ch \<and> \<not> chunk_locked ch \<and> chunk_owner ch = Some u \<and> s' = save_chunk ch s)"
proof (cases "qs_get (filter (\<lambda>c. chunk_stocktake c = sid \<and> chunk_owner c = Some u) (chunks s))")
  case (Inr c)
  then show ?thesis using assms by (simp add: assign_free_stocktake_chunk_def)
next
  case (Inl e)
  show ?thesis
  proof (cases "qs_first chunk_id (filter (\<lambda>c. chunk_stocktake c = sid \<and> chunk_locked c = False \<and> chunk_owner c = None) (chunks s))")
    case None
    then show ?thesis using assms Inl
      by (auto simp: assign_free_stocktake_chunk_def split: if_splits)
  next
    case (Some c)
    from qs_first_mem [OF Some] have "\<not> chunk_locked c" by simp
    then show ?thesis using assms Inl Some
      by (auto simp: assign_free_stocktake_chunk_def Let_def split: if_splits)
  qed
qed

lemma finalize_chunk_effect:
  assumes "finalize_stocktake_chunk cid s = Inr s'" "ch \<in> set (chunks s')" "chunk_id ch = cid"
  shows "chunk_locked ch \<and> chunk_owner ch = None"
proof -
  obtain c where c: "qs_get (filter (\<lambda>c. chunk_id c = cid) (chunks s)) = Inr c"
      and s': "s' = save_chunk (c\<lparr>chunk_locked := True, chunk_owner := None\<rparr>) s"
    using assms(1) by (auto simp: finalize_stocktake_chunk_def split: sum.splits if_splits)
  have "filter (\<lambda>c. chunk_id c = cid) (chunks s) = [c]"
    using c by (cases "filter (\<lambda>c. chunk_id c = cid) (chunks s)" rule: qs_get.cases) auto
  then have "c \<in> set (filter (\<lambda>c. chunk_id c = cid) (chunks s))" by simp
  then have "chunk_id c = cid" by simp
  then show ?thesis using assms(2,3) unfolding s'
    by (auto simp: save_chunk_def split: if_splits)
qed

lemma stocktake_calls_run: "exec_all stocktake_calls empty_db = Inr counted_db"
  by code_simp

text \<open>
  C9. A locked stocktake chunk has no owner. The chunks that \<open>initiate_stocktaking\<close>
  creates are unlocked and without owner; \<open>assign_free_stocktake_chunk\<close> either leaves the
  database as it is or saves one unlocked chunk with the user as owner;
  \<open>finalize_stocktake_chunk\<close> leaves the chunk locked and without owner; every call
  preserves the invariant; hence in every state that calls reach from the empty database,
  a locked chunk has no owner.
\<close>

theorem locked_chunk_has_no_owner:
  "(initiate_stocktaking q n s = Inr (st, s1) \<longrightarrow>
      list_all (\<lambda>ch. \<not> chunk_locked ch \<and> chunk_owner ch = None) (created_chunks s s1))
   \<and> (assign_free_stocktake_chunk u sid s = Inr (r, s2) \<longrightarrow>
        s2 = s \<or> (\<exists>ch. r = Some ch \<and> \<not> chunk_locked ch \<and> chunk_owner ch = Some u
                      \<and> s2 = save_chunk ch s))
   \<and> (finalize_stocktake_chunk cid s = Inr s3 \<longrightarrow>
        (\<forall>ch\<in>set (chunks s3). chunk_id ch = cid \<longrightarrow> chunk_locked ch \<and> chunk_owner ch = None))
   \<and> (locked_chunks_unowned s \<longrightarrow> exec c s = Inr s' \<longrightarrow> locked_chunks_unowned s')
   \<and> (reachable s \<longrightarrow> (\<forall>ch\<in>set (chunks s). chunk_locked ch \<longrightarrow> chunk_owner ch = None))"
proof (intro conjI impI)
  assume "initiate_stocktaking q n s = Inr (st, s1)"
  then show "list_all (\<lambda>ch. \<not> chunk_locked ch \<and> chunk_owner ch = None) (created_chunks s s1)"
    by (rule initiate_created_open)
next
  assume "assign_free_stocktake_chunk u sid s = Inr (r, s2)"
  then show "s2 = s \<or> (\<exists>ch. r = Some ch \<and> \<not> chunk_locked ch \<and> chunk_owner ch = Some u
                      \<and> s2 = save_chunk ch s)"
    by (rule assign_effect)
next
  assume "finalize_stocktake_chunk cid s = Inr s3"
  then show "\<forall>ch\<in>set (chunks s3). chunk_id ch = cid \<longrightarrow> chunk_locked ch \<and> chunk_owner ch = None"
    by (blast dest: finalize_chunk_effect)
next
  assume "locked_chunks_unowned s" "exec c s = Inr s'"
  then show "locked_chunks_unowned s'" by (rule luo_exec)
next
  assume "reachable s"
  then have "locked_chunks_unowned s" by (rule luo_reachable)
  then show "\<forall>ch\<in>set (chunks s). chunk_locked ch \<longrightarrow> chunk_owner ch = None"
    by (simp add: locked_chunks_unowned_def list_all_iff)
qed

theorem locked_chunk_has_no_owner_witness:
  "initiate_stocktaking 0 2 products_db
     = Inr (\<lparr>stocktake_id = 1, stocktake_locked = False\<rparr>, initiated_db)
   \<and> list_all (\<lambda>ch. \<not> chunk_locked ch \<and> chunk_owner ch = None) (created_chunks products_db initiated_db)
   \<and> length (created_chunks products_db initiated_db) = 2
   \<and> assign_free_stocktake_chunk 7 1 initiated_db
       = Inr (Some \<lparr>chunk_id = 1, chunk_stocktake = 1, chunk_locked = False, chunk_owner = Some 7\<rparr>,
              assigned_db)
   \<and> assigned_db \<noteq> initiated_db
   \<and> assigned_db = save_chunk \<lparr>chunk_id = 1, chunk_stocktake = 1, chunk_locked = False,
                                 chunk_owner = Some 7\<rparr> initiated_db
   \<and> finalize_stocktake_chunk 1 assigned_db = Inr counted_db
   \<and> \<lparr>chunk_id = 1, chunk_stocktake = 1, chunk_locked = True, chunk_owner = None\<rparr>
        \<in> set (chunks counted_db)
   \<and> locked_chunks_unowned assigned_db
   \<and> exec (FinalizeStocktakeChunk 1) assigned_db = Inr counted_db
   \<and> locked_chunks_unowned counted_db
   \<and> reachable counted_db
   \<and> map (\<lambda>ch. (chunk_locked ch, chunk_owner ch)) (chunks counted_db)
       = [(True, None), (False, None)]"
proof -
  have i: "initiate_stocktaking 0 2 products_db
     = Inr (\<lparr>stocktake_id = 1, stocktake_locked = False\<rparr>, initiated_db)"
    by code_simp
  have a: "assign_free_stocktake_chunk 7 1 initiated_db
       = Inr (Some \<lparr>chunk_id = 1, chunk_stocktake = 1, chunk_locked = False, chunk_owner = Some 7\<rparr>,
              assigned_db)"
    by code_simp
  have f: "finalize_stocktake_chunk 1 assigned_db = Inr counted_db"
    by code_simp
  have e: "exec (FinalizeStocktakeChunk 1) assigned_db = Inr counted_db"
    using f by simp
  have l: "locked_chunks_unowned assigned_db"
    by code_simp
  have r: "reachable counted_db"
    using reachable_empty stocktake_calls_run by (rule reachable_exec_all)
  have n: "length (created_chunks products_db initiated_db) = 2"
    by code_simp
  have d: "assigned_db \<noteq> initiated_db"
    by code_simp
  have sv: "assigned_db = save_chunk \<lparr>chunk_id = 1, chunk_stocktake = 1, chunk_locked = False,
                                 chunk_owner = Some 7\<rparr> initiated_db"
    by code_simp
  have m: "\<lparr>chunk_id = 1, chunk_stocktake = 1, chunk_locked = True, chunk_owner = None\<rparr>
        \<in> set (chunks counted_db)"
    by code_simp
  note thm1 = locked_chunk_has_no_owner [of 0 2 products_db "\<lparr>stocktake_id = 1, stocktake_locked = False\<rparr>"
      initiated_db 7 1 "Some \<lparr>chunk_id = 1, chunk_stocktake = 1, chunk_locked = False, chunk_owner = Some 7\<rparr>"
      assigned_db 1 counted_db "FinalizeStocktakeChunk 1" counted_db]
  note thm3 = locked_chunk_has_no_owner [of 0 2 assigned_db
      "\<lparr>stocktake_id = 1, stocktake_locked = False\<rparr>" initiated_db 7 1
      "Some \<lparr>chunk_id = 1, chunk_stocktake = 1, chunk_locked = False, chunk_owner = Some 7\<rparr>"
      assigned_db 1 counted_db "FinalizeStocktakeChunk 1" counted_db]
  note thm4 = locked_chunk_has_no_owner [of 0 2 counted_db
      "\<lparr>stocktake_id = 1, stocktake_locked = False\<rparr>" initiated_db 7 1
      "Some \<lparr>chunk_id = 1, chunk_stocktake = 1, chunk_locked = False, chunk_owner = Some 7\<rparr>"
      assigned_db 1 counted_db "FinalizeStocktakeChunk 1" counted_db]
  have c1: "list_all (\<lambda>ch. \<not> chunk_locked ch \<and> chunk_owner ch = None) (created_chunks products_db initiated_db)"
    using thm1 i by blast
  have c5: "locked_chunks_unowned counted_db"
    using thm3 l e by blast
  have c6: "\<forall>ch\<in>set (chunks counted_db). chunk_locked ch \<longrightarrow> chunk_owner ch = None"
    using thm4 r by blast
  have c7: "map (\<lambda>ch. (chunk_locked ch, chunk_owner ch)) (chunks counted_db)
       = [(True, None), (False, None)]"
    by code_simp
  show ?thesis
    using i c1 n a d sv f m l e c5 r c7 by blast
qed

subsection \<open>Assigning a chunk twice\<close>

lemma save_filter_single:
  assumes "distinct (map f xs)" "x \<in> set xs" "P y" "\<forall>r\<in>set xs. \<not> P r"
  shows "filter P (map (\<lambda>r. if f r = f x then y else r) xs) = [y]"
  using assms
proof (induction xs)
  case Nil
  then show ?case by simp
next
  case (Cons a xs)
  show ?case
  proof (cases "a = x")
    case True
    then have "f x \<notin> f ` set xs" using Cons.prems(1) by simp
    then have "\<forall>r\<in>set xs. f r \<noteq> f x" by (metis imageI)
    then have "map (\<lambda>r. if f r = f x then y else r) xs = xs"
      by (intro map_idI) simp
    moreover have "filter P xs = []" using Cons.prems(4) by simp
    ultimately show ?thesis using True Cons.prems(3) by simp
  next
    case False
    then have x: "x \<in> set xs" using Cons.prems(2) by simp
    have "f a \<notin> f ` set xs" using Cons.prems(1) by simp
    then have "f a \<noteq> f x" using x by (metis imageI)
    moreover have "\<not> P a" using Cons.prems(4) by simp
    moreover have "filter P (map (\<lambda>r. if f r = f x then y else r) xs) = [y]"
      using Cons.IH Cons.prems x by simp
    ultimately show ?thesis by simp
  qed
qed


lemma qs_get_DoesNotExist: "qs_get xs = Inl DoesNotExist \<longleftrightarrow> xs = []"
  by (cases xs rule: qs_get.cases) auto

lemma assign_twice:
  assumes d: "distinct (map chunk_id (chunks s))"
    and a: "assign_free_stocktake_chunk u sid s = Inr (Some ch, s')"
  shows "assign_free_stocktake_chunk u sid s' = Inr (Some ch, s')"
proof (cases "qs_get (filter (\<lambda>c. chunk_stocktake c = sid \<and> chunk_owner c = Some u) (chunks s))")
  case (Inr c)
  then show ?thesis using a by (simp add: assign_free_stocktake_chunk_def)
next
  case (Inl e)
  then have e: "e = DoesNotExist"
    using a by (auto simp: assign_free_stocktake_chunk_def split: if_splits)
  then have none: "filter (\<lambda>c. chunk_stocktake c = sid \<and> chunk_owner c = Some u) (chunks s) = []"
    using Inl by (simp add: qs_get_DoesNotExist)
  obtain c0 where c0: "qs_first chunk_id (filter (\<lambda>c. chunk_stocktake c = sid \<and> chunk_locked c = False
        \<and> chunk_owner c = None) (chunks s)) = Some c0"
      and ch: "ch = c0\<lparr>chunk_owner := Some u\<rparr>" and s': "s' = save_chunk ch s"
    using a Inl e
    by (auto simp: assign_free_stocktake_chunk_def Let_def split: option.splits)
  from qs_first_mem [OF c0] have mem: "c0 \<in> set (chunks s)" and sid: "chunk_stocktake c0 = sid"
    by simp_all
  have "filter (\<lambda>c. chunk_stocktake c = sid \<and> chunk_owner c = Some u)
          (map (\<lambda>r. if chunk_id r = chunk_id c0 then ch else r) (chunks s)) = [ch]"
  proof (rule save_filter_single [OF d mem])
    show "chunk_stocktake ch = sid \<and> chunk_owner ch = Some u" using ch sid by simp
    show "\<forall>r\<in>set (chunks s). \<not> (chunk_stocktake r = sid \<and> chunk_owner r = Some u)"
      using none by (simp add: filter_empty_conv)
  qed
  then have "filter (\<lambda>c. chunk_stocktake c = sid \<and> chunk_owner c = Some u) (chunks s') = [ch]"
    unfolding s' save_chunk_def using ch by simp
  then show ?thesis by (simp add: assign_free_stocktake_chunk_def)
qed

lemma assign_none:
  assumes "filter (\<lambda>c. chunk_stocktake c = sid \<and> chunk_owner c = Some u) (chunks s) = []"
    and "filter (\<lambda>c. chunk_stocktake c = sid \<and> chunk_locked c = False \<and> chunk_owner c = None) (chunks s) = []"
  shows "assign_free_stocktake_chunk u sid s = Inr (None, s)"
  using assms by (simp add: assign_free_stocktake_chunk_def qs_first_def)

text \<open>
  C7. \<open>assign_free_stocktake_chunk\<close> is idempotent per user: when a call returns a chunk,
  a second call by the same user for the same stocktake, with nothing in between, returns
  that chunk again (and changes nothing); when the user owns no chunk of the stocktake and
  the stocktake has no unlocked chunk without owner, the call returns None. Chunk rows
  have distinct primary keys.
\<close>

theorem assign_free_chunk_idempotent:
  "(distinct (map chunk_id (chunks s)) \<longrightarrow>
      assign_free_stocktake_chunk u sid s = Inr (Some ch, s') \<longrightarrow>
      assign_free_stocktake_chunk u sid s' = Inr (Some ch, s'))
   \<and> (filter (\<lambda>c. chunk_stocktake c = sid \<and> chunk_owner c = Some u) (chunks s) = [] \<longrightarrow>
        filter (\<lambda>c. chunk_stocktake c = sid \<and> chunk_locked c = False \<and> chunk_owner c = None)
          (chunks s) = [] \<longrightarrow>
        assign_free_stocktake_chunk u sid s = Inr (None, s))"
  using assign_twice assign_none by blast

theorem assign_free_chunk_idempotent_witness:
  "distinct (map chunk_id (chunks initiated_db))
   \<and> assign_free_stocktake_chunk 7 1 initiated_db
       = Inr (Some \<lparr>chunk_id = 1, chunk_stocktake = 1, chunk_locked = False, chunk_owner = Some 7\<rparr>,
              assigned_db)
   \<and> assign_free_stocktake_chunk 7 1 assigned_db
       = Inr (Some \<lparr>chunk_id = 1, chunk_stocktake = 1, chunk_locked = False, chunk_owner = Some 7\<rparr>,
              assigned_db)
   \<and> filter (\<lambda>c. chunk_stocktake c = 1 \<and> chunk_owner c = Some 7) (chunks all_counted_db) = []
   \<and> filter (\<lambda>c. chunk_stocktake c = 1 \<and> chunk_locked c = False \<and> chunk_owner c = None)
         (chunks all_counted_db) = []
   \<and> assign_free_stocktake_chunk 7 1 all_counted_db = Inr (None, all_counted_db)"
proof -
  have d: "distinct (map chunk_id (chunks initiated_db))"
    by code_simp
  have a: "assign_free_stocktake_chunk 7 1 initiated_db
       = Inr (Some \<lparr>chunk_id = 1, chunk_stocktake = 1, chunk_locked = False, chunk_owner = Some 7\<rparr>,
              assigned_db)"
    by code_simp
  have o: "filter (\<lambda>c. chunk_stocktake c = 1 \<and> chunk_owner c = Some 7) (chunks all_counted_db) = []"
    by code_simp
  have f: "filter (\<lambda>c. chunk_stocktake c = 1 \<and> chunk_locked c = False \<and> chunk_owner c = None)
         (chunks all_counted_db) = []"
    by code_simp
  have twice: "assign_free_stocktake_chunk 7 1 assigned_db
       = Inr (Some \<lparr>chunk_id = 1, chunk_stocktake = 1, chunk_locked = False, chunk_owner = Some 7\<rparr>,
              assigned_db)"
    using assign_free_chunk_idempotent [of initiated_db 7 1 _ assigned_db] d a by blast
  have none: "assign_free_stocktake_chunk 7 1 all_counted_db = Inr (None, all_counted_db)"
    using assign_free_chunk_idempotent [of all_counted_db 7 1] o f by blast
  show ?thesis using d a twice o f none by blast
qed

subsection \<open>Initiating a stocktake\<close>


lemma create_items_other [simp]:
  "stocktakes (create_items q cid ps s) = stocktakes s"
  "products (create_items q cid ps s) = products s"
  by (induction ps arbitrary: s) (simp_all add: create_item_def)













subsection \<open>Finalizing a stocktake\<close>

lemma has_product_transactions [simp]:
  "has_product (s\<lparr>transactions := ts\<rparr>) = has_product s"
  by (intro ext) (simp add: has_product_def)











subsection \<open>Supplier catalog cache\<close>

text \<open>
  C10. When \<open>get_supplier_product\<close> is called with \<open>refresh = True\<close> and the supplier
  does not know the SKU, the call returns None and the database, the cached row for
  (supplier, SKU) included, is unchanged. The supplier row is there (the call looks it
  up before it asks the supplier).
\<close>

theorem get_supplier_product_refresh_not_found:
  assumes "qs_get (filter (\<lambda>su. supplier_id su = sid) (suppliers s)) = Inr su"
    and "retrieve_product (internal_name su) sku = None"
  shows "get_supplier_product retrieve_product blank sid sku True s = Inr (None, s)"
  using assms by (simp add: get_supplier_product_def fetch_supplier_product_def)

theorem get_supplier_product_refresh_not_found_witness:
  "qs_get (filter (\<lambda>su. supplier_id su = 1) (suppliers catalog_db))
     = Inr \<lparr>supplier_id = 1, internal_name = ''narlivs''\<rparr>
   \<and> example_retrieve_product ''narlivs'' ''111'' = None
   \<and> map sp_id (filter (\<lambda>sp. sp_supplier sp = 1 \<and> sp_sku sp = ''111'') (supplier_products catalog_db)) = [1]
   \<and> get_supplier_product example_retrieve_product blank_supplier_product 1 ''111'' True catalog_db
       = Inr (None, catalog_db)"
proof -
  have a: "qs_get (filter (\<lambda>su. supplier_id su = 1) (suppliers catalog_db))
     = Inr \<lparr>supplier_id = 1, internal_name = ''narlivs''\<rparr>"
    by code_simp
  have b: "example_retrieve_product ''narlivs'' ''111'' = None"
    by code_simp
  have c: "map sp_id (filter (\<lambda>sp. sp_supplier sp = 1 \<and> sp_sku sp = ''111'') (supplier_products catalog_db)) = [1]"
    by code_simp
  have d: "get_supplier_product example_retrieve_product blank_supplier_product 1 ''111'' True catalog_db
       = Inr (None, catalog_db)"
    using get_supplier_product_refresh_not_found [of 1 catalog_db _ example_retrieve_product "''111''"] a b
    by simp
  show ?thesis using a b c d by blast
qed

subsection \<open>Delivery pipeline\<close>













subsection \<open>Replenishment planner\<close>


lemma keys_of_error:
  assumes "x \<in> set xs" "key x = Inl e"
  shows "\<exists>e'. keys_of key xs = Inl e'"
  using assms
proof (induction xs)
  case Nil
  then show ?case by simp
next
  case (Cons a xs)
  then show ?case
    by (cases "key a"; cases "keys_of key xs") auto
qed







lemma order_from_supplier_key_error:
  assumes "sp \<in> set (candidates pid sid s)" "cost qty sp = Inl e"
  shows "\<exists>e'. order_from_supplier order_product pid qty sid s = (Inl e', [])"
proof -
  from keys_of_error [of sp "candidates pid sid s" "cost qty" e] assms obtain e' where "keys_of (cost qty) (candidates pid sid s) = Inl e'"
    by blast
  then show ?thesis by (simp add: order_from_supplier_def sorted_by_def)
qed

lemma cost_zero_batch: "sp_qty sp = 0 \<Longrightarrow> cost qty sp = Inl ZeroDivisionError"
  by (simp add: cost_def minimum_qty_def py_truediv_def)





text \<open>
  C4. A call of \<open>order_from_supplier\<close> in which no order is placed raises an APIException
  that names the last SKU tried. The code does so when there are candidates (see
  \<open>order_from_supplier_spec\<close> below), but not for an empty candidate set: the loop variable
  \<^verbatim>\<open>product\<close> is then unbound when the \<^verbatim>\<open>else\<close> branch reads \<^verbatim>\<open>product.sku\<close>, and
  the call raises UnboundLocalError. Product 2 of the example catalog has no offering.
\<close>

lemma order_from_supplier_no_candidates:
  "candidates pid sid s = [] \<Longrightarrow> order_from_supplier order_product pid qty sid s = (Inl UnboundLocalError, [])"
  by (simp add: order_from_supplier_def sorted_by_def)

theorem order_from_supplier_empty_unbound:
  "candidates 2 None catalog_db = []
   \<and> order_from_supplier example_order_product 2 10 None catalog_db = (Inl UnboundLocalError, [])"
  by code_simp

subsection \<open>Forecast engine\<close>

text \<open>
  Once the product is found and its quantity is above the target, nothing in
  \<open>predict_quantity\<close> depends on the product: two such products get the same forecast.
\<close>

lemma data_points_first_offset:
  assumes "rows \<noteq> []" and "data_points today_ordinal initial rows = (x, y)"
  shows "hd x = - 1 \<and> x ! 1 = 0"
proof -
  obtain row rest where rows: "rows = row # rest"
    using assms(1) by (cases rows) auto
  show ?thesis
    using assms(2) unfolding data_points_def Let_def rows
    by (auto split: if_splits)
qed

lemma predict_quantity_any_product:
  assumes "qs_get (filter (\<lambda>p. product_id p = pid) (products s)) = Inr p"
    and "qs_get (filter (\<lambda>p. product_id p = pid') (products s)) = Inr p'"
    and "target < product_qty s (product_id p)"
    and "target < product_qty s (product_id p')"
  shows "predict_quantity svr_coef pid target today_ordinal s
         = predict_quantity svr_coef pid' target today_ordinal s"
  using assms by (simp add: predict_quantity_def)

text \<open>
  C2. For a product whose quantity is above the target and that has no finalized restock
  (INVENTORY) transaction of its own, \<open>predict_quantity\<close> is to return None: the baseline
  of the forecast is to come from the product's own ledger, and the source says so where
  it returns None (\<^verbatim>\<open># The product has never been restocked.\<close>). The code does not:
  \<^verbatim>\<open>qs = models.ProductTransaction.objects.finalized()\<close> is never restricted to the
  product, so the last restock, the initial quantity and the daily sums are those of the
  whole ledger. In the example ledger product 1 has the quantity 5 and was never
  restocked; the forecast for it, on day 14 with target 0, takes the restock of product 2
  as the baseline, fits the series x = -1, 0, 1, 2, 3, y = 100, 105, 95, 85, 85 made of
  the transactions of both products and, for the slope -5 (that of the least-squares line
  through these points), returns the date of ordinal 31 where None is required.
\<close>

theorem predict_quantity_foreign_ledger:
  "filter (\<lambda>t. trx_product t = 1) (restocks (finalized (transactions forecast_db))) = []
   \<and> product_qty forecast_db 1 = 5
   \<and> map_option trx_product (restock_trx forecast_db) = Some 2
   \<and> map_option (\<lambda>r. data_points 14 (initial_qty forecast_db r) (trx_objs forecast_db r))
        (restock_trx forecast_db) = Some ([- 1, 0, 1, 2, 3], [100, 105, 95, 85, 85])
   \<and> predict_quantity (\<lambda>x y. - 5) 1 0 14 forecast_db = Inr (Some 31)"
  by code_simp

text \<open>
  C3, as stated, fails twice. The code adds the days to \<^verbatim>\<open>date_offset\<close>, the ordinal of the
  first day of the aggregated series (the day of offset 0), not to the offset of the last
  point of the fitted series; and it cuts the quotient off towards zero
  (\<^verbatim>\<open>astype(int)\<close>) where the statement rounds it. In the example ledger, on day 14, the
  first day is 11 and the last point has the offset 3. For the slope -5 the quotient is 20
  and the code returns the date of ordinal 31, the stated formula gives 34; for the slope -6
  the quotient is the double next to 16.67, cut off to 16 and rounded to 17, and the code
  returns 27, the stated formula gives 31.
\<close>

theorem predict_quantity_date_counterexample:
  "map_option (\<lambda>r. (fst (hd (trx_objs forecast_db r)), initial_qty forecast_db r,
                     data_points 14 (initial_qty forecast_db r) (trx_objs forecast_db r)))
      (restock_trx forecast_db) = Some (11, 100, [- 1, 0, 1, 2, 3], [100, 105, 95, 85, 85])
   \<and> predict_quantity (\<lambda>x y. - 5) 2 0 14 forecast_db = Inr (Some 31)
   \<and> spec_predicted_ordinal 11 [- 1, 0, 1, 2, 3] 100 (- 5) = 34
   \<and> predict_quantity (\<lambda>x y. - 6) 2 0 14 forecast_db = Inr (Some 27)
   \<and> spec_predicted_ordinal 11 [- 1, 0, 1, 2, 3] 100 (- 6) = 31
   \<and> astype_int (np_truediv (- 100) (- 6)) = 16
   \<and> round (np_truediv (- 100) (- 6)) = 17"
  by code_simp

text \<open>
  C3, amended. Whenever \<open>predict_quantity\<close> reaches the regression step (the product is
  found, its quantity is above the target, there is a finalized restock and at least one
  daily sum after it): if the fitted slope is at least 0 it returns None; if the slope is
  negative it returns the date of ordinal \<open>date_offset + days\<close>, where \<open>date_offset\<close> is
  the ordinal of the first day of the aggregated series, the point of offset 0 that
  follows the baseline point at -1, and \<open>days\<close> is the double quotient of \<open>- initial_qty\<close> by
  the slope with its fraction cut off, towards zero; where that ordinal is not one of a
  date, \<^verbatim>\<open>date.fromordinal\<close> raises ValueError or OverflowError.
\<close>

theorem predict_quantity_date:
  assumes "qs_get (filter (\<lambda>p. product_id p = pid) (products s)) = Inr p"
    and "target < product_qty s (product_id p)"
    and "restock_trx s = Some r"
    and "trx_objs s r \<noteq> []"
    and "data_points today_ordinal (initial_qty s r) (trx_objs s r) = (x, y)"
  shows "x ! 1 = 0
    \<and> (0 \<le> svr_coef x y \<longrightarrow> predict_quantity svr_coef pid target today_ordinal s = Inr None)
    \<and> (svr_coef x y < 0 \<longrightarrow>
         predict_quantity svr_coef pid target today_ordinal s
         = map_sum id Some
             (fromordinal (fst (hd (trx_objs s r))
                           + astype_int (np_truediv (- initial_qty s r) (svr_coef x y)))))"
proof -
  have "x ! 1 = 0"
    using data_points_first_offset [OF assms(4) assms(5)] by simp
  moreover have "0 \<le> svr_coef x y \<Longrightarrow> predict_quantity svr_coef pid target today_ordinal s = Inr None"
    using assms by (simp add: predict_quantity_def Let_def)
  moreover have "svr_coef x y < 0 \<Longrightarrow>
         predict_quantity svr_coef pid target today_ordinal s
         = map_sum id Some
             (fromordinal (fst (hd (trx_objs s r))
                           + astype_int (np_truediv (- initial_qty s r) (svr_coef x y))))"
    using assms by (simp add: predict_quantity_def Let_def)
  ultimately show ?thesis by blast
qed

theorem predict_quantity_date_witness:
  "qs_get (filter (\<lambda>p. product_id p = 2) (products forecast_db)) = Inr (products forecast_db ! 1)
   \<and> 0 < product_qty forecast_db (product_id (products forecast_db ! 1))
   \<and> restock_trx forecast_db = Some (hd (transactions forecast_db))
   \<and> trx_objs forecast_db (hd (transactions forecast_db)) = [(11, 5), (12, - 10), (13, - 10)]
   \<and> initial_qty forecast_db (hd (transactions forecast_db)) = 100
   \<and> data_points 14 100 [(11, 5), (12, - 10), (13, - 10)] = ([- 1, 0, 1, 2, 3], [100, 105, 95, 85, 85])
   \<and> np_truediv (- 100) (- 6) = 4691249611844267 / 281474976710656
   \<and> predict_quantity (\<lambda>x y. - 6) 2 0 14 forecast_db = Inr (Some 27)
   \<and> predict_quantity (\<lambda>x y. 1 / 2) 2 0 14 forecast_db = Inr None"
proof -
  have g: "qs_get (filter (\<lambda>p. product_id p = 2) (products forecast_db)) = Inr (products forecast_db ! 1)"
    by code_simp
  have q: "0 < product_qty forecast_db (product_id (products forecast_db ! 1))"
    by code_simp
  have r: "restock_trx forecast_db = Some (hd (transactions forecast_db))"
    by code_simp
  have rows: "trx_objs forecast_db (hd (transactions forecast_db)) = [(11, 5), (12, - 10), (13, - 10)]"
    by code_simp
  have ini: "initial_qty forecast_db (hd (transactions forecast_db)) = 100"
    by code_simp
  have dp: "data_points 14 100 [(11, 5), (12, - 10), (13, - 10)] = ([- 1, 0, 1, 2, 3], [100, 105, 95, 85, 85])"
    by code_simp
  have dp': "data_points 14 (initial_qty forecast_db (hd (transactions forecast_db)))
               (trx_objs forecast_db (hd (transactions forecast_db)))
             = ([- 1, 0, 1, 2, 3], [100, 105, 95, 85, 85])"
    unfolding rows ini by (rule dp)
  have ne: "trx_objs forecast_db (hd (transactions forecast_db)) \<noteq> []"
    unfolding rows by simp
  have fl: "np_truediv (- 100) (- 6) = 4691249611844267 / 281474976710656"
    by code_simp
  have d1: "map_sum id Some (fromordinal (11 + astype_int (4691249611844267 / 281474976710656)))
            = Inr (Some 27)"
    by code_simp
  have p1: "predict_quantity (\<lambda>x y. - 6) 2 0 14 forecast_db = Inr (Some 27)"
    using predict_quantity_date [OF g q r ne dp', of "\<lambda>x y. - 6"]
    by (simp add: rows ini fl d1)
  have p2: "predict_quantity (\<lambda>x y. 1 / 2) 2 0 14 forecast_db = Inr None"
    using predict_quantity_date [OF g q r ne dp', of "\<lambda>x y. 1 / 2"]
    by simp
  show ?thesis
    using g q r rows ini dp fl p1 p2 by blast
qed

text \<open>
  Slopes close to zero give ordinals that are not dates: the call raises ValueError
  above the ordinal of \<^verbatim>\<open>date.max\<close>, and OverflowError where the ordinal does not fit
  a C int or the quotient does not fit a 64-bit integer.
\<close>

lemma predict_quantity_invalid_date:
  "predict_quantity (\<lambda>x y. - 1 / 2 ^ 30) 2 0 14 forecast_db = Inl OverflowError
   \<and> predict_quantity (\<lambda>x y. - 1 / 2 ^ 20) 2 0 14 forecast_db = Inl ValueError
   \<and> predict_quantity (\<lambda>x y. - 1 / 2 ^ 80) 2 0 14 forecast_db = Inl OverflowError"
  by code_simp

end
